theory Spec2Isabelle
  imports Complex_Main "HOL-Library.Log_Nat"
begin

section \<open>Data model\<close>

text \<open>
  The documents of \<^verbatim>\<open>workout.model.ts\<close> and \<^verbatim>\<open>record.model.ts\<close>, and the
  operations of \<^verbatim>\<open>workout.service.ts\<close> and \<^verbatim>\<open>utils/calculators.ts\<close> on them.

  An ObjectId is a natural number (the strings \<^verbatim>\<open>id\<close> and \<^verbatim>\<open>userId\<close> are taken as
  already cast), a \<^verbatim>\<open>Date\<close> is its number of milliseconds, and every
  \<^verbatim>\<open>new Date()\<close> of one call reads the same clock value \<open>now\<close>. The fields that
  no operation below reads are left out: \<^verbatim>\<open>duration\<close>, \<^verbatim>\<open>rpe\<close> and
  \<^verbatim>\<open>notes\<close> of a set, \<^verbatim>\<open>notes\<close> of an exercise entry, \<^verbatim>\<open>location\<close> and
  \<^verbatim>\<open>notes\<close> of a workout, and the timestamps.
\<close>

type_synonym objectId = nat
type_synonym date = int

subsection \<open>JavaScript numbers\<close>

text \<open>
  A \<^verbatim>\<open>number\<close> is a finite IEEE double, here the rational it denotes; \<^verbatim>\<open>NaN\<close>
  and the infinities are no values of the model. Comparisons are exact. The result of
  \<^verbatim>\<open>*\<close>, \<^verbatim>\<open>+\<close> and \<^verbatim>\<open>/\<close> is the exact result rounded by \<open>fl\<close> to the
  nearest double, ties to the even significand: 53 significant bits, gradual underflow
  below \<open>2\<^sup>-\<^sup>1\<^sup>0\<^sup>2\<^sup>2\<close>. A result whose magnitude reaches \<open>2\<^sup>1\<^sup>0\<^sup>2\<^sup>4\<close>, which
  JavaScript makes an infinity, stays finite here.
\<close>

type_synonym number = rat

definition pow2 :: "int \<Rightarrow> rat" where
  "pow2 k = (if 0 \<le> k then 2 ^ nat k else 1 / 2 ^ nat (- k))"

text \<open>For \<open>0 < x\<close>, the integer \<open>k\<close> with \<open>2\<^sup>k \<le> x < 2\<^sup>k\<^sup>+\<^sup>1\<close>.\<close>

definition ilog2 :: "rat \<Rightarrow> int" where
  "ilog2 x =
     (let d = bitlen (fst (quotient_of x)) - bitlen (snd (quotient_of x))
      in if pow2 d \<le> x then d else d - 1)"

definition fl :: "rat \<Rightarrow> number" where
  "fl x =
     (if x = 0 then 0
      else
        (let e = max (ilog2 \<bar>x\<bar> - 52) (- 1074);
             y = \<bar>x\<bar> / pow2 e;
             n = \<lfloor>y\<rfloor>;
             d = y - of_int n;
             k = (if d < 1 / 2 then n
                  else if 1 / 2 < d then n + 1
                  else if even n then n else n + 1)
         in sgn x * of_int k * pow2 e))"

subsection \<open>Documents\<close>

datatype workout_status = In_progress | Completed | Aborted

record workout_set =
  weight :: number
  reps :: number
  completed :: bool
  isPersonalRecord :: bool

record workout_exercise =
  e_id :: objectId
  exercise :: objectId
  sets :: "workout_set list"

record workout_metrics =
  totalVolume :: number
  totalReps :: number
  caloriesBurned :: number
  personalRecords :: nat

record workout =
  w_id :: objectId
  w_user :: objectId
  routine :: objectId
  startTime :: date
  endTime :: "date option"
  duration :: "number option"
  status :: workout_status
  exercises :: "workout_exercise list"
  metrics :: "workout_metrics option"

datatype record_type = Weight | Reps | Volume | Duration

record record_doc =
  r_user :: objectId
  r_exercise :: objectId
  r_type :: record_type
  r_value :: number
  r_date :: date
  r_workout :: objectId
  r_previous :: "(number \<times> date) option"

text \<open>
  The object that \<^verbatim>\<open>completeWorkout\<close> hands to \<^verbatim>\<open>Progress.create\<close>, and the
  document of \<^verbatim>\<open>models/progress.model.ts\<close>, whose schema has the paths
  \<^verbatim>\<open>user\<close>, \<^verbatim>\<open>type\<close>, \<^verbatim>\<open>value\<close>, \<^verbatim>\<open>date\<close> and \<^verbatim>\<open>notes\<close>.
\<close>

datatype progress_metric = Exercise_volume objectId | Workout_duration | Workout_volume

record progress_input =
  p_user :: objectId
  p_type :: string
  p_metric :: progress_metric
  p_date :: date
  p_value :: number
  p_unit :: string
  p_workout :: objectId
  p_exercise :: "objectId option"
  p_source :: string

record progress_doc =
  d_user :: objectId
  d_type :: string
  d_value :: number
  d_date :: date
  d_notes :: "string option"

section \<open>The store\<close>

text \<open>
  The collections, a transaction as a private copy of them, and a log of the calls made
  to the store. A call that is given the session of an open transaction reads and writes
  the copy; a call without one reads and writes the collections themselves.
  \<open>commitTransaction\<close> installs the copy, \<open>abortTransaction\<close> drops it and is taken
  not to fail; \<^verbatim>\<open>startSession\<close> and \<^verbatim>\<open>endSession\<close> change nothing.
  \<open>exercise_ids\<close> are the ids of the Exercise collection, which \<^verbatim>\<open>populate\<close> reads.
\<close>

record db =
  workouts :: "workout list"
  records :: "record_doc list"
  progress :: "progress_doc list"
  exercise_ids :: "objectId list"

datatype store_op =
  FindWorkout | FindRecord | CreateRecord | CreateProgress | SaveWorkout | Commit | Abort

record mongo =
  store :: db
  txn :: "db option"
  oplog :: "store_op list"

datatype client_session = ClientSession

text \<open>
  What a call can throw: an \<^verbatim>\<open>AppError\<close> with its message and status code, a failure
  of the store, the violation of a unique index, the \<^verbatim>\<open>TypeError\<close> of reading
  \<^verbatim>\<open>_id\<close> of a reference that \<^verbatim>\<open>populate\<close> left \<^verbatim>\<open>null\<close>, the
  \<^verbatim>\<open>ValidationError\<close> of Mongoose for a document that its schema rejects, and the
  \<^verbatim>\<open>Error\<close> of the \<^verbatim>\<open>pre('save')\<close> hook of the Progress model.
\<close>

datatype exn =
  AppError string nat | StoreFailure | DuplicateKey | TypeError | ValidationError | HookError

type_synonym 'a io = "mongo \<Rightarrow> (exn + 'a) \<times> mongo"

definition returnE :: "'a \<Rightarrow> 'a io" where
  "returnE x m = (Inr x, m)"

definition throwE :: "exn \<Rightarrow> 'a io" where
  "throwE e m = (Inl e, m)"

definition bindE :: "'a io \<Rightarrow> ('a \<Rightarrow> 'b io) \<Rightarrow> 'b io" where
  "bindE act f m = (case act m of (Inl e, m') \<Rightarrow> (Inl e, m') | (Inr x, m') \<Rightarrow> f x m')"

text \<open>
  \<open>faults n\<close> says that the \<open>n\<close>-th call to the store (counted from 0 over the log)
  fails. Every call is logged, the failing one too.
\<close>

definition storeCall :: "(nat \<Rightarrow> bool) \<Rightarrow> store_op \<Rightarrow> 'a io \<Rightarrow> 'a io" where
  "storeCall faults op act m =
     (let m' = m\<lparr>oplog := oplog m @ [op]\<rparr>
      in if faults (length (oplog m)) then (Inl StoreFailure, m') else act m')"

definition readDb :: "client_session option \<Rightarrow> mongo \<Rightarrow> db" where
  "readDb session m =
     (case session of None \<Rightarrow> store m
      | Some _ \<Rightarrow> (case txn m of None \<Rightarrow> store m | Some v \<Rightarrow> v))"

definition writeDb :: "client_session option \<Rightarrow> (db \<Rightarrow> db) \<Rightarrow> mongo \<Rightarrow> mongo" where
  "writeDb session f m =
     (case session of None \<Rightarrow> m\<lparr>store := f (store m)\<rparr>
      | Some _ \<Rightarrow> (case txn m of None \<Rightarrow> m\<lparr>store := f (store m)\<rparr>
                   | Some v \<Rightarrow> m\<lparr>txn := Some (f v)\<rparr>))"

definition startTransaction :: "mongo \<Rightarrow> mongo" where
  "startTransaction m = m\<lparr>txn := Some (store m)\<rparr>"

definition commitTransaction :: "(nat \<Rightarrow> bool) \<Rightarrow> unit io" where
  "commitTransaction faults =
     storeCall faults Commit
       (\<lambda>m. (Inr (), (case txn m of None \<Rightarrow> m | Some v \<Rightarrow> m\<lparr>store := v, txn := None\<rparr>)))"

definition abortTransaction :: "mongo \<Rightarrow> mongo" where
  "abortTransaction m = m\<lparr>txn := None, oplog := oplog m @ [Abort]\<rparr>"

subsection \<open>Queries and writes\<close>

text \<open>\<^verbatim>\<open>Workout.findOne({ _id: id, user: userId })\<close>.\<close>

definition Workout_findOne ::
  "(nat \<Rightarrow> bool) \<Rightarrow> client_session option \<Rightarrow> objectId \<Rightarrow> objectId \<Rightarrow> workout option io" where
  "Workout_findOne faults session wid uid =
     storeCall faults FindWorkout
       (\<lambda>m. (Inr (find (\<lambda>w. w_id w = wid \<and> w_user w = uid) (workouts (readDb session m))), m))"

text \<open>\<^verbatim>\<open>doc.save()\<close>: the stored document with the same \<^verbatim>\<open>_id\<close> is replaced.\<close>

definition Workout_save :: "(nat \<Rightarrow> bool) \<Rightarrow> client_session option \<Rightarrow> workout \<Rightarrow> unit io" where
  "Workout_save faults session w =
     storeCall faults SaveWorkout
       (\<lambda>m. (Inr (),
          writeDb session
            (\<lambda>d. d\<lparr>workouts := map (\<lambda>x. if w_id x = w_id w then w else x) (workouts d)\<rparr>) m))"

text \<open>
  \<^verbatim>\<open>Record.findOne({ user, exercise, type }).sort({ value: -1 })\<close>: of the matching
  documents, the first one of greatest value.
\<close>

definition sameKey :: "objectId \<Rightarrow> objectId \<Rightarrow> record_type \<Rightarrow> record_doc \<Rightarrow> bool" where
  "sameKey uid eid ty r = (r_user r = uid \<and> r_exercise r = eid \<and> r_type r = ty)"

fun greatest :: "record_doc \<Rightarrow> record_doc list \<Rightarrow> record_doc" where
  "greatest b [] = b"
| "greatest b (r # rs) = greatest (if r_value b < r_value r then r else b) rs"

definition sortedFirst :: "record_doc list \<Rightarrow> record_doc option" where
  "sortedFirst rs = (case rs of [] \<Rightarrow> None | r # rs' \<Rightarrow> Some (greatest r rs'))"

definition Record_findOne ::
  "(nat \<Rightarrow> bool) \<Rightarrow> client_session option \<Rightarrow> objectId \<Rightarrow> objectId \<Rightarrow> record_type
     \<Rightarrow> record_doc option io" where
  "Record_findOne faults session uid eid ty =
     storeCall faults FindRecord
       (\<lambda>m. (Inr (sortedFirst (filter (sameKey uid eid ty) (records (readDb session m)))), m))"

text \<open>
  \<^verbatim>\<open>Record.create\<close>: an insert, under the unique index
  \<^verbatim>\<open>RecordSchema.index({ user: 1, exercise: 1, type: 1 }, { unique: true })\<close>.
\<close>

definition Record_create :: "(nat \<Rightarrow> bool) \<Rightarrow> client_session option \<Rightarrow> record_doc \<Rightarrow> unit io" where
  "Record_create faults session doc =
     storeCall faults CreateRecord
       (\<lambda>m. if \<exists>r \<in> set (records (readDb session m)).
                 sameKey (r_user doc) (r_exercise doc) (r_type doc) r
             then (Inl DuplicateKey, m)
             else (Inr (), writeDb session (\<lambda>d. d\<lparr>records := records d @ [doc]\<rparr>) m))"

subsection \<open>models/progress.model.ts\<close>

text \<open>The values that the schema accepts for \<^verbatim>\<open>type\<close>.\<close>

definition ProgressMetricSchema_enum :: "string list" where
  "ProgressMetricSchema_enum =
     [''weight'', ''bodyFat'', ''waist'', ''chest'', ''arms'', ''thighs'']"

text \<open>The schema is strict: the paths that it does not have are dropped from the object.\<close>

definition castProgress :: "progress_input \<Rightarrow> progress_doc" where
  "castProgress doc =
     \<lparr>d_user = p_user doc, d_type = p_type doc, d_value = p_value doc, d_date = p_date doc,
      d_notes = None\<rparr>"

text \<open>
  The \<^verbatim>\<open>pre('save')\<close> hook passes the document on. The strings of \<^verbatim>\<open>MetricType\<close> are
  those of \<^verbatim>\<open>packages/shared/src/types/progress.types.ts\<close>, where \<^verbatim>\<open>BODY_FAT\<close> is
  \<^verbatim>\<open>'bodyFat'\<close> as in the enum of the schema. No document that
  \<^verbatim>\<open>completeWorkout\<close> creates reaches the hook.
\<close>

definition preSave :: "progress_doc \<Rightarrow> bool" where
  "preSave d =
     (\<not> (d_type d = ''weight'' \<and> (d_value d \<le> 0 \<or> 500 < d_value d)) \<and>
      \<not> (d_type d = ''bodyFat'' \<and> (d_value d < 0 \<or> 100 < d_value d)) \<and>
      \<not> ((d_type d = ''chest'' \<or> d_type d = ''waist'' \<or> d_type d = ''hips'' \<or>
           d_type d = ''arms'' \<or> d_type d = ''thighs'') \<and>
          (d_value d \<le> 0 \<or> 300 < d_value d)))"

text \<open>
  \<^verbatim>\<open>doc.save()\<close> of one Progress document: the validation against the schema, then
  the hook, then the insert. A document that is rejected does not reach the store.
\<close>

definition Progress_save ::
  "(nat \<Rightarrow> bool) \<Rightarrow> client_session option \<Rightarrow> progress_doc \<Rightarrow> unit io" where
  "Progress_save faults session d =
     (if d_type d \<notin> set ProgressMetricSchema_enum then throwE ValidationError
      else if \<not> preSave d then throwE HookError
      else storeCall faults CreateProgress
             (\<lambda>m. (Inr (), writeDb session (\<lambda>b. b\<lparr>progress := progress b @ [d]\<rparr>) m)))"

text \<open>
  \<^verbatim>\<open>Progress.create\<close> of an array: every object is cast and saved. The saves are
  taken in the order of the array; in \<^verbatim>\<open>completeWorkout\<close> the objects of one call
  have the same \<^verbatim>\<open>type\<close>, so that the schema rejects all of them or none.
\<close>

fun Progress_create ::
  "(nat \<Rightarrow> bool) \<Rightarrow> client_session option \<Rightarrow> progress_input list \<Rightarrow> unit io" where
  "Progress_create faults session [] = returnE ()"
| "Progress_create faults session (doc # docs) =
     bindE (Progress_save faults session (castProgress doc))
       (\<lambda>_. Progress_create faults session docs)"

section \<open>utils/calculators.ts\<close>

definition calculateVolume :: "number \<Rightarrow> number \<Rightarrow> number" where
  "calculateVolume w r = fl (w * r)"

definition isPersonalRecord ::
  "(nat \<Rightarrow> bool) \<Rightarrow> objectId \<Rightarrow> objectId \<Rightarrow> number \<Rightarrow> number \<Rightarrow> client_session option
     \<Rightarrow> bool io" where
  "isPersonalRecord faults userId exerciseId w r session =
     (if r = 1 then
        bindE (Record_findOne faults session userId exerciseId Weight)
          (\<lambda>maxWeightRecord.
             returnE (case maxWeightRecord of None \<Rightarrow> True | Some rec \<Rightarrow> r_value rec < w))
      else
        (let volume = calculateVolume w r
         in bindE (Record_findOne faults session userId exerciseId Volume)
              (\<lambda>maxVolumeRecord.
                 returnE (case maxVolumeRecord of None \<Rightarrow> True
                          | Some rec \<Rightarrow> r_value rec < volume))))"

section \<open>services/workout.service.ts\<close>

text \<open>A loop over a list that updates its elements and an accumulator, and stops at the
  first exception.\<close>

fun forEachE :: "('a \<Rightarrow> 'c \<Rightarrow> ('a \<times> 'c) io) \<Rightarrow> 'a list \<Rightarrow> 'c \<Rightarrow> ('a list \<times> 'c) io" where
  "forEachE body [] acc = returnE ([], acc)"
| "forEachE body (x # xs) acc =
     bindE (body x acc)
       (\<lambda>(x', acc'). bindE (forEachE body xs acc')
          (\<lambda>(xs', acc''). returnE (x' # xs', acc'')))"

text \<open>
  \<^verbatim>\<open>exercise.exercise._id\<close> on the populated document: \<^verbatim>\<open>populate\<close> leaves
  \<^verbatim>\<open>null\<close> for a reference to no Exercise document.
\<close>

definition populatedId :: "workout_exercise \<Rightarrow> objectId io" where
  "populatedId ex m =
     (if exercise ex \<in> set (exercise_ids (readDb (Some ClientSession) m))
      then (Inr (exercise ex), m) else (Inl TypeError, m))"

text \<open>The body of the loop over the sets of one exercise; the accumulator is
  \<^verbatim>\<open>(exerciseVolume, exerciseReps, personalRecords)\<close>.\<close>

definition processSet ::
  "(nat \<Rightarrow> bool) \<Rightarrow> date \<Rightarrow> objectId \<Rightarrow> objectId \<Rightarrow> workout_exercise \<Rightarrow> workout_set
     \<Rightarrow> number \<times> number \<times> nat \<Rightarrow> (workout_set \<times> number \<times> number \<times> nat) io" where
  "processSet faults now userId wid ex s acc =
     (case acc of (exerciseVolume, exerciseReps, personalRecords0) \<Rightarrow>
        if completed s then
          (let exerciseReps' = fl (exerciseReps + reps s);
               setVolume = calculateVolume (weight s) (reps s);
               exerciseVolume' = fl (exerciseVolume + setVolume)
           in bindE (populatedId ex) (\<lambda>exerciseId.
              bindE (isPersonalRecord faults userId exerciseId (weight s) (reps s)
                       (Some ClientSession))
                (\<lambda>isRecord.
                   if isRecord then
                     bindE (Record_create faults (Some ClientSession)
                              \<lparr>r_user = userId, r_exercise = exerciseId,
                               r_type = (if reps s = 1 then Weight else Volume),
                               r_value = (if reps s = 1 then weight s
                                          else fl (weight s * reps s)),
                               r_date = now, r_workout = wid, r_previous = None\<rparr>)
                       (\<lambda>_. returnE (s\<lparr>isPersonalRecord := True\<rparr>,
                                      exerciseVolume', exerciseReps', personalRecords0 + 1))
                   else returnE (s, exerciseVolume', exerciseReps', personalRecords0))))
        else returnE (s, exerciseVolume, exerciseReps, personalRecords0))"

text \<open>The body of the loop over the exercises; the accumulator is
  \<^verbatim>\<open>(totalVolume, totalReps, personalRecords)\<close>.\<close>

definition processExercise ::
  "(nat \<Rightarrow> bool) \<Rightarrow> date \<Rightarrow> objectId \<Rightarrow> objectId \<Rightarrow> workout_exercise
     \<Rightarrow> number \<times> number \<times> nat \<Rightarrow> (workout_exercise \<times> number \<times> number \<times> nat) io" where
  "processExercise faults now userId wid ex acc =
     (case acc of (totalVolume0, totalReps0, personalRecords0) \<Rightarrow>
        bindE (forEachE (processSet faults now userId wid ex) (sets ex) (0, 0, personalRecords0))
          (\<lambda>(sets', exerciseVolume, exerciseReps, personalRecords').
             bindE (populatedId ex) (\<lambda>exerciseId.
             bindE (Progress_create faults (Some ClientSession)
                      [\<lparr>p_user = userId, p_type = ''exercise'',
                        p_metric = Exercise_volume exerciseId, p_date = now,
                        p_value = exerciseVolume, p_unit = ''kg'', p_workout = wid,
                        p_exercise = Some exerciseId, p_source = ''workout''\<rparr>])
               (\<lambda>_. returnE (ex\<lparr>sets := sets'\<rparr>,
                              fl (totalVolume0 + exerciseVolume),
                              fl (totalReps0 + exerciseReps),
                              personalRecords')))))"

text \<open>\<^verbatim>\<open>Math.round\<close>: the nearest integer, a tie going up.\<close>

definition Math_round :: "number \<Rightarrow> number" where
  "Math_round x = of_int \<lfloor>x + 1 / 2\<rfloor>"

text \<open>The \<^verbatim>\<open>try\<close> block of \<^verbatim>\<open>completeWorkout\<close>.\<close>

definition completeWorkoutTry ::
  "(nat \<Rightarrow> bool) \<Rightarrow> date \<Rightarrow> objectId \<Rightarrow> objectId \<Rightarrow> workout io" where
  "completeWorkoutTry faults now wid userId =
     bindE (Workout_findOne faults (Some ClientSession) wid userId) (\<lambda>found.
       case found of
         None \<Rightarrow> throwE (AppError ''Workout not found'' 404)
       | Some workout0 \<Rightarrow>
           if status workout0 = Completed
           then throwE (AppError ''Workout is already completed'' 400)
           else
             (let workout1 = workout0\<lparr>status := Completed, endTime := Some now,
                      duration := Some (of_int
                        \<lfloor>fl (of_int (now - startTime workout0) / 1000)\<rfloor>)\<rparr>
              in bindE (forEachE (processExercise faults now userId (w_id workout1))
                          (exercises workout1) (0, 0, 0))
                   (\<lambda>(exercises', totalVolume', totalReps', personalRecords').
                      (let workout2 = workout1\<lparr>exercises := exercises',
                               metrics := Some \<lparr>totalVolume = totalVolume',
                                  totalReps = totalReps',
                                  caloriesBurned =
                                    Math_round (fl (totalVolume' * fl (5 / 100))),
                                  personalRecords = personalRecords'\<rparr>\<rparr>
                       in bindE (Workout_save faults (Some ClientSession) workout2) (\<lambda>_.
                          bindE (Progress_create faults (Some ClientSession)
                            [\<lparr>p_user = userId, p_type = ''performance'',
                              p_metric = Workout_duration, p_date = now,
                              p_value = (case duration workout2 of None \<Rightarrow> 0 | Some d \<Rightarrow> d),
                              p_unit = ''seconds'', p_workout = w_id workout2,
                              p_exercise = None, p_source = ''workout''\<rparr>,
                             \<lparr>p_user = userId, p_type = ''performance'',
                              p_metric = Workout_volume, p_date = now,
                              p_value = totalVolume',
                              p_unit = ''kg'', p_workout = w_id workout2,
                              p_exercise = None, p_source = ''workout''\<rparr>]) (\<lambda>_.
                          bindE (commitTransaction faults) (\<lambda>_.
                          returnE workout2)))))))"

text \<open>
  \<^verbatim>\<open>completeWorkout\<close>: the transaction is started, the \<^verbatim>\<open>try\<close> block runs, and the
  \<^verbatim>\<open>catch\<close> block aborts the transaction and rethrows an \<^verbatim>\<open>AppError\<close> as it is and
  anything else as \<^verbatim>\<open>AppError('Error completing workout', 400)\<close>.
\<close>

definition completeWorkout ::
  "(nat \<Rightarrow> bool) \<Rightarrow> date \<Rightarrow> objectId \<Rightarrow> objectId \<Rightarrow> workout io" where
  "completeWorkout faults now wid userId m =
     (case completeWorkoutTry faults now wid userId (startTransaction m) of
        (Inr workout, m') \<Rightarrow> (Inr workout, m')
      | (Inl e, m') \<Rightarrow>
          (Inl (case e of AppError msg code \<Rightarrow> AppError msg code
                | _ \<Rightarrow> AppError ''Error completing workout'' 400),
           abortTransaction m'))"

text \<open>
  \<^verbatim>\<open>addExerciseToWorkout\<close> and \<^verbatim>\<open>updateExerciseInWorkout\<close>: both load and save
  without a session. \<^verbatim>\<open>Partial<IWorkoutSet>\<close> is a workout exercise whose fields may
  be absent; the entry that is pushed carries the \<^verbatim>\<open>_id\<close> it is given.
\<close>

record exercise_update =
  u_exercise :: "objectId option"
  u_sets :: "workout_set list option"

definition Object_assign :: "workout_exercise \<Rightarrow> exercise_update \<Rightarrow> workout_exercise" where
  "Object_assign ex updateData =
     ex\<lparr>exercise := (case u_exercise updateData of None \<Rightarrow> exercise ex | Some e \<Rightarrow> e),
        sets := (case u_sets updateData of None \<Rightarrow> sets ex | Some ss \<Rightarrow> ss)\<rparr>"

fun findIndex :: "('a \<Rightarrow> bool) \<Rightarrow> 'a list \<Rightarrow> nat option" where
  "findIndex P [] = None"
| "findIndex P (x # xs) =
     (if P x then Some 0 else (case findIndex P xs of None \<Rightarrow> None | Some i \<Rightarrow> Some (Suc i)))"

definition addExerciseToWorkout ::
  "(nat \<Rightarrow> bool) \<Rightarrow> objectId \<Rightarrow> objectId \<Rightarrow> workout_exercise \<Rightarrow> workout io" where
  "addExerciseToWorkout faults workoutId userId exerciseData m =
     (case bindE (Workout_findOne faults None workoutId userId) (\<lambda>found.
        case found of
          None \<Rightarrow> throwE (AppError ''Workout not found'' 404)
        | Some workout0 \<Rightarrow>
            if status workout0 \<noteq> In_progress
            then throwE (AppError ''Cannot add exercises to a completed workout'' 400)
            else
              (let workout1 = workout0\<lparr>exercises := exercises workout0 @ [exerciseData]\<rparr>
               in bindE (Workout_save faults None workout1) (\<lambda>_. returnE workout1))) m of
        (Inr workout, m') \<Rightarrow> (Inr workout, m')
      | (Inl e, m') \<Rightarrow>
          (Inl (case e of AppError msg code \<Rightarrow> AppError msg code
                | _ \<Rightarrow> AppError ''Error adding exercise to workout'' 400), m'))"

definition updateExerciseInWorkout ::
  "(nat \<Rightarrow> bool) \<Rightarrow> objectId \<Rightarrow> objectId \<Rightarrow> objectId \<Rightarrow> exercise_update \<Rightarrow> workout io" where
  "updateExerciseInWorkout faults workoutId userId exerciseId updateData m =
     (case bindE (Workout_findOne faults None workoutId userId) (\<lambda>found.
        case found of
          None \<Rightarrow> throwE (AppError ''Workout not found'' 404)
        | Some workout0 \<Rightarrow>
            (case findIndex (\<lambda>ex. e_id ex = exerciseId) (exercises workout0) of
               None \<Rightarrow> throwE (AppError ''Exercise not found in workout'' 404)
             | Some exerciseIndex \<Rightarrow>
                 (let workout1 = workout0\<lparr>exercises := (exercises workout0)
                          [exerciseIndex :=
                             Object_assign (exercises workout0 ! exerciseIndex) updateData]\<rparr>
                  in bindE (Workout_save faults None workout1) (\<lambda>_. returnE workout1)))) m of
        (Inr workout, m') \<Rightarrow> (Inr workout, m')
      | (Inl e, m') \<Rightarrow>
          (Inl (case e of AppError msg code \<Rightarrow> AppError msg code
                | _ \<Rightarrow> AppError ''Error updating exercise in workout'' 400), m'))"

section \<open>The decision rule of the specification\<close>



section \<open>Predicates of the proofs\<close>

text \<open>The database that a call with the session reads.\<close>

definition view :: "mongo \<Rightarrow> db" where
  "view m = readDb (Some ClientSession) m"

text \<open>A transaction is open and the collections are \<open>S\<close>.\<close>

definition inTx :: "db \<Rightarrow> mongo \<Rightarrow> bool" where
  "inTx S m = (store m = S \<and> txn m \<noteq> None)"

text \<open>An action keeps an invariant of the store, whether it returns or throws.\<close>

definition keeps :: "(mongo \<Rightarrow> bool) \<Rightarrow> 'a io \<Rightarrow> bool" where
  "keeps I act = (\<forall>m. I m \<longrightarrow> I (snd (act m)))"

text \<open>An action that throws inside a transaction leaves the collections as they were.\<close>

definition failSafe :: "db \<Rightarrow> 'a io \<Rightarrow> bool" where
  "failSafe S act = (\<forall>m e m'. inTx S m \<longrightarrow> act m = (Inl e, m') \<longrightarrow> store m' = S)"

text \<open>
  An action only adds to the log, and a call to the store that fails is its last: the
  action throws and the log ends with that call.
\<close>

definition failFast :: "(nat \<Rightarrow> bool) \<Rightarrow> 'a io \<Rightarrow> bool" where
  "failFast faults act =
     (\<forall>m r m'. act m = (r, m') \<longrightarrow>
        (\<exists>l. oplog m' = oplog m @ l) \<and>
        (\<forall>k. length (oplog m) \<le> k \<and> k < length (oplog m') \<and> faults k \<longrightarrow>
             isl r \<and> length (oplog m') = Suc k))"


definition hasKey :: "objectId \<Rightarrow> objectId \<Rightarrow> record_type \<Rightarrow> db \<Rightarrow> bool" where
  "hasKey uid eid ty d = (\<exists>r \<in> set (records d). sameKey uid eid ty r)"

text \<open>An invariant that the calls of the two loops keep: it survives a new entry of the
  log and the insert of a Record or of a Progress document in the transaction.\<close>

definition stable :: "(mongo \<Rightarrow> bool) \<Rightarrow> bool" where
  "stable I = (\<forall>m. I m \<longrightarrow>
     (\<forall>op. I (m\<lparr>oplog := oplog m @ [op]\<rparr>)) \<and>
     (\<forall>doc. I (writeDb (Some ClientSession) (\<lambda>d. d\<lparr>records := records d @ [doc]\<rparr>) m)) \<and>
     (\<forall>doc. I (writeDb (Some ClientSession) (\<lambda>d. d\<lparr>progress := progress d @ [doc]\<rparr>) m)))"

text \<open>The log starts with \<open>L\<close>.\<close>

definition logFrom :: "store_op list \<Rightarrow> mongo \<Rightarrow> bool" where
  "logFrom L m = (\<exists>rest. oplog m = L @ rest)"

text \<open>The exceptions of an action all satisfy \<open>P\<close>.\<close>

definition throwsOnly :: "(exn \<Rightarrow> bool) \<Rightarrow> 'a io \<Rightarrow> bool" where
  "throwsOnly P act = (\<forall>m e m'. act m = (Inl e, m') \<longrightarrow> P e)"

text \<open>The exceptions that are no \<^verbatim>\<open>AppError\<close>, and the exceptions of the \<^verbatim>\<open>try\<close>
  block.\<close>

definition storeExn :: "exn \<Rightarrow> bool" where
  "storeExn e = (e = StoreFailure \<or> e = DuplicateKey \<or> e = TypeError \<or>
                 e = ValidationError \<or> e = HookError)"

definition tryExn :: "exn \<Rightarrow> bool" where
  "tryExn e = (e = AppError ''Workout not found'' 404 \<or>
               e = AppError ''Workout is already completed'' 400 \<or> storeExn e)"



section \<open>Example sessions\<close>

definition doneSet :: "number \<Rightarrow> number \<Rightarrow> workout_set" where
  "doneSet w r = \<lparr>weight = w, reps = r, completed = True, isPersonalRecord = False\<rparr>"

text \<open>Session 1 of user 7, with one entry for exercise 5.\<close>

definition session1 :: "workout_status \<Rightarrow> workout_set list \<Rightarrow> workout" where
  "session1 st ss =
     \<lparr>w_id = 1, w_user = 7, routine = 3, startTime = 1000, endTime = None, duration = None,
      status = st, exercises = [\<lparr>e_id = 11, exercise = 5, sets = ss\<rparr>], metrics = None\<rparr>"

definition weightRecord :: "number \<Rightarrow> record_doc" where
  "weightRecord v =
     \<lparr>r_user = 7, r_exercise = 5, r_type = Weight, r_value = v, r_date = 0, r_workout = 0,
      r_previous = None\<rparr>"


definition mongoOf :: "workout \<Rightarrow> record_doc list \<Rightarrow> mongo" where
  "mongoOf w rs =
     \<lparr>store = \<lparr>workouts = [w], records = rs, progress = [], exercise_ids = [5, 6]\<rparr>,
      txn = None, oplog = []\<rparr>"

definition noFaults :: "nat \<Rightarrow> bool" where
  "noFaults n = False"

section \<open>Rounding\<close>

text \<open>
  \<open>fl\<close> on some numbers: a tenth; \<^verbatim>\<open>0.1 + 0.2\<close>, which is above \<^verbatim>\<open>0.3\<close>; the
  neighbours of \<open>2\<^sup>5\<^sup>3\<close>, where a tie goes to the even significand; integers. And a
  product that is rounded: the double nearest to 60.2, times 5, is 301.
\<close>

lemma fl_examples:
  "fl (1 / 10) = 3602879701896397 / 36028797018963968 \<and>
   fl (3 / 10) < fl (fl (1 / 10) + fl (2 / 10)) \<and>
   fl 9007199254740993 = 9007199254740992 \<and>
   fl 9007199254740995 = 9007199254740996 \<and>
   fl (- 15) = - 15 \<and> fl 2020 = 2020"
  by code_simp

lemma calculateVolume_examples:
  "calculateVolume 80 10 = 800 \<and>
   301 < fl (301 / 5) * 5 \<and> calculateVolume (fl (301 / 5)) 5 = 301"
  by code_simp

section \<open>Sequencing\<close>

lemma bindE_Inr_iff:
  "bindE act f m = (Inr y, m'') \<longleftrightarrow> (\<exists>x m'. act m = (Inr x, m') \<and> f x m' = (Inr y, m''))"
  by (auto simp: bindE_def split: prod.splits sum.splits)

lemma bindE_Inl_iff:
  "bindE act f m = (Inl e, m'') \<longleftrightarrow>
     act m = (Inl e, m'') \<or> (\<exists>x m'. act m = (Inr x, m') \<and> f x m' = (Inl e, m''))"
  by (auto simp: bindE_def split: prod.splits sum.splits)

lemma bindE_snd:
  assumes "\<And>x. keeps I (f x)" and "I (snd (act m))"
  shows "I (snd (bindE act f m))"
  using assms by (auto simp: bindE_def keeps_def split: prod.splits sum.splits)




subsection \<open>Invariants\<close>


lemma keeps_returnE: "keeps I (returnE x)"
  by (simp add: keeps_def returnE_def)

lemma keeps_throwE: "keeps I (throwE x)"
  by (simp add: keeps_def throwE_def)

lemma keeps_bindE: "keeps I act \<Longrightarrow> (\<And>x. keeps I (f x)) \<Longrightarrow> keeps I (bindE act f)"
  unfolding keeps_def bindE_def
  by (auto split: prod.splits sum.splits)

lemma keeps_forEachE: "(\<And>x acc. keeps I (body x acc)) \<Longrightarrow> keeps I (forEachE body xs acc)"
proof (induction xs arbitrary: acc)
  case Nil
  show ?case by (simp add: keeps_returnE)
next
  case (Cons x xs)
  show ?case
    by (auto intro!: keeps_bindE keeps_returnE Cons)
qed

lemma keeps_storeCall:
  "(\<And>m. I m \<Longrightarrow> I (m\<lparr>oplog := oplog m @ [op]\<rparr>)) \<Longrightarrow> keeps I act \<Longrightarrow> keeps I (storeCall faults op act)"
  by (auto simp: keeps_def storeCall_def Let_def)

subsection \<open>Exceptions\<close>

lemma throwsOnly_returnE: "throwsOnly P (returnE x)"
  by (simp add: throwsOnly_def returnE_def)

lemma throwsOnly_throwE: "P e \<Longrightarrow> throwsOnly P (throwE e)"
  by (simp add: throwsOnly_def throwE_def)

lemma throwsOnly_bindE:
  "throwsOnly P act \<Longrightarrow> (\<And>x. throwsOnly P (f x)) \<Longrightarrow> throwsOnly P (bindE act f)"
  unfolding throwsOnly_def bindE_Inl_iff by blast

lemma throwsOnly_forEachE:
  "(\<And>x acc. throwsOnly P (body x acc)) \<Longrightarrow> throwsOnly P (forEachE body xs acc)"
proof (induction xs arbitrary: acc)
  case Nil
  show ?case by (simp add: throwsOnly_returnE)
next
  case (Cons x xs)
  show ?case
    by (auto intro!: throwsOnly_bindE throwsOnly_returnE Cons)
qed

lemma throwsOnly_storeCall:
  "P StoreFailure \<Longrightarrow> throwsOnly P act \<Longrightarrow> throwsOnly P (storeCall faults op act)"
  by (auto simp: throwsOnly_def storeCall_def Let_def split: if_splits)

lemma throwsOnly_weaken: "throwsOnly P act \<Longrightarrow> (\<And>e. P e \<Longrightarrow> Q e) \<Longrightarrow> throwsOnly Q act"
  by (auto simp: throwsOnly_def)

subsection \<open>A failing call is the last\<close>

lemma failFast_returnE: "failFast faults (returnE x)"
  by (simp add: failFast_def returnE_def)

lemma failFast_throwE: "failFast faults (throwE e)"
  by (simp add: failFast_def throwE_def)

lemma failFast_bindE:
  assumes a: "failFast faults act" and f: "\<And>x. failFast faults (f x)"
  shows "failFast faults (bindE act f)"
  unfolding failFast_def
proof (intro allI impI)
  fix m r m'
  assume run: "bindE act f m = (r, m')"
  obtain r1 m1 where r1: "act m = (r1, m1)" by (cases "act m")
  from a r1 obtain l1 where l1: "oplog m1 = oplog m @ l1"
    and k1: "\<And>k. length (oplog m) \<le> k \<Longrightarrow> k < length (oplog m1) \<Longrightarrow> faults k \<Longrightarrow>
                 isl r1 \<and> length (oplog m1) = Suc k"
    unfolding failFast_def by blast
  show "(\<exists>l. oplog m' = oplog m @ l) \<and>
        (\<forall>k. length (oplog m) \<le> k \<and> k < length (oplog m') \<and> faults k \<longrightarrow>
             isl r \<and> length (oplog m') = Suc k)"
  proof (cases r1)
    case (Inl e)
    with run r1 have "r = Inl e" "m' = m1"
      by (simp_all add: bindE_def)
    with l1 k1 Inl show ?thesis by auto
  next
    case (Inr x)
    with run r1 have fx: "f x m1 = (r, m')"
      by (simp add: bindE_def)
    from f [of x] fx obtain l2 where l2: "oplog m' = oplog m1 @ l2"
      and k2: "\<And>k. length (oplog m1) \<le> k \<Longrightarrow> k < length (oplog m') \<Longrightarrow> faults k \<Longrightarrow>
                 isl r \<and> length (oplog m') = Suc k"
      unfolding failFast_def by blast
    have none: "\<And>k. length (oplog m) \<le> k \<Longrightarrow> k < length (oplog m1) \<Longrightarrow> \<not> faults k"
      using k1 Inr by auto
    have "isl r \<and> length (oplog m') = Suc k"
      if k: "length (oplog m) \<le> k \<and> k < length (oplog m') \<and> faults k" for k
    proof -
      from k none have "length (oplog m1) \<le> k"
        by (meson not_le)
      with k k2 show ?thesis
        by blast
    qed
    with l1 l2 show ?thesis
      by simp
  qed
qed

lemma failFast_forEachE:
  "(\<And>x acc. failFast faults (body x acc)) \<Longrightarrow> failFast faults (forEachE body xs acc)"
proof (induction xs arbitrary: acc)
  case Nil
  show ?case by (simp add: failFast_returnE)
next
  case (Cons x xs)
  show ?case
    by (auto intro!: failFast_bindE failFast_returnE Cons)
qed

lemma failFast_storeCall:
  assumes "\<And>m. oplog (snd (act m)) = oplog m"
  shows "failFast faults (storeCall faults op act)"
  unfolding failFast_def storeCall_def Let_def
proof (intro allI impI)
  fix m r m'
  assume run: "(if faults (length (oplog m)) then (Inl StoreFailure, m\<lparr>oplog := oplog m @ [op]\<rparr>)
                else act (m\<lparr>oplog := oplog m @ [op]\<rparr>)) = (r, m')"
  have lg: "oplog m' = oplog m @ [op]"
    using run assms [of "m\<lparr>oplog := oplog m @ [op]\<rparr>"]
    by (auto split: if_splits)
  then show "(\<exists>l. oplog m' = oplog m @ l) \<and>
        (\<forall>k. length (oplog m) \<le> k \<and> k < length (oplog m') \<and> faults k \<longrightarrow>
             isl r \<and> length (oplog m') = Suc k)"
    using run by (auto split: if_splits simp: less_Suc_eq_le)
qed

section \<open>The calls to the store\<close>

lemma readDb_oplog [simp]: "readDb s (m\<lparr>oplog := l\<rparr>) = readDb s m"
  by (simp add: readDb_def split: option.splits)

lemma readDb_writeDb [simp]: "readDb s (writeDb s f m) = f (readDb s m)"
  by (simp add: readDb_def writeDb_def split: option.splits)

lemma oplog_writeDb [simp]: "oplog (writeDb s f m) = oplog m"
  by (simp add: writeDb_def split: option.splits)

lemma view_oplog [simp]: "view (m\<lparr>oplog := l\<rparr>) = view m"
  by (simp add: view_def)

lemma view_writeDb [simp]: "view (writeDb (Some ClientSession) f m) = f (view m)"
  by (simp add: view_def)



lemma snd_Workout_findOne:
  "snd (Workout_findOne faults s wid uid m) = m\<lparr>oplog := oplog m @ [FindWorkout]\<rparr>"
  by (simp add: Workout_findOne_def storeCall_def Let_def)

subsection \<open>A call that returns\<close>

lemma storeCall_Inr:
  "storeCall faults op act m = (Inr x, m') \<longleftrightarrow>
     \<not> faults (length (oplog m)) \<and> act (m\<lparr>oplog := oplog m @ [op]\<rparr>) = (Inr x, m')"
  by (simp add: storeCall_def Let_def)

lemma Workout_findOne_Inr:
  "Workout_findOne faults s wid uid m = (Inr x, m') \<longleftrightarrow>
     \<not> faults (length (oplog m)) \<and> m' = m\<lparr>oplog := oplog m @ [FindWorkout]\<rparr> \<and>
     x = find (\<lambda>w. w_id w = wid \<and> w_user w = uid) (workouts (readDb s m))"
  by (auto simp: Workout_findOne_def storeCall_Inr)





subsection \<open>A call that throws\<close>

lemma throwsOnly_Workout_findOne: "throwsOnly storeExn (Workout_findOne faults s wid uid)"
  unfolding Workout_findOne_def
  by (rule throwsOnly_storeCall) (auto simp: throwsOnly_def storeExn_def)

lemma throwsOnly_Record_findOne: "throwsOnly storeExn (Record_findOne faults s uid eid ty)"
  unfolding Record_findOne_def
  by (rule throwsOnly_storeCall) (auto simp: throwsOnly_def storeExn_def)

lemma throwsOnly_Record_create: "throwsOnly storeExn (Record_create faults s doc)"
  unfolding Record_create_def
  by (rule throwsOnly_storeCall) (auto simp: throwsOnly_def storeExn_def split: if_splits)

lemma throwsOnly_Progress_save: "throwsOnly storeExn (Progress_save faults s d)"
  unfolding Progress_save_def
  by (auto simp: throwsOnly_def storeExn_def throwE_def storeCall_def Let_def split: if_splits)

lemma throwsOnly_Progress_create: "throwsOnly storeExn (Progress_create faults s docs)"
  by (induction docs) (auto intro!: throwsOnly_bindE throwsOnly_returnE throwsOnly_Progress_save)

lemma throwsOnly_Workout_save: "throwsOnly storeExn (Workout_save faults s w)"
  unfolding Workout_save_def
  by (rule throwsOnly_storeCall) (auto simp: throwsOnly_def storeExn_def)

lemma throwsOnly_commit: "throwsOnly storeExn (commitTransaction faults)"
  unfolding commitTransaction_def
  by (rule throwsOnly_storeCall) (auto simp: throwsOnly_def storeExn_def)

lemma throwsOnly_populatedId: "throwsOnly storeExn (populatedId ex)"
  by (auto simp: throwsOnly_def populatedId_def storeExn_def split: if_splits)

lemma throwsOnly_processSet: "throwsOnly storeExn (processSet faults now uid wid ex s acc)"
  unfolding processSet_def isPersonalRecord_def Let_def
  by (auto intro!: throwsOnly_bindE throwsOnly_returnE throwsOnly_populatedId
      throwsOnly_Record_findOne throwsOnly_Record_create split: prod.splits)

lemma throwsOnly_processExercise:
  "throwsOnly storeExn (processExercise faults now uid wid ex acc)"
  unfolding processExercise_def
  by (auto intro!: throwsOnly_bindE throwsOnly_returnE throwsOnly_populatedId
      throwsOnly_forEachE throwsOnly_processSet throwsOnly_Progress_save split: prod.splits)

lemma throwsOnly_Try: "throwsOnly tryExn (completeWorkoutTry faults now wid uid)"
  unfolding completeWorkoutTry_def Let_def
  by (auto intro!: throwsOnly_bindE throwsOnly_returnE throwsOnly_throwE
      throwsOnly_weaken [OF throwsOnly_Workout_findOne]
      throwsOnly_weaken [OF throwsOnly_forEachE [OF throwsOnly_processExercise]]
      throwsOnly_weaken [OF throwsOnly_Workout_save]
      throwsOnly_weaken [OF throwsOnly_Progress_save]
      throwsOnly_weaken [OF throwsOnly_commit]
      simp: tryExn_def split: option.splits prod.splits)

subsection \<open>What the loops keep\<close>

lemma keeps_populatedId: "keeps I (populatedId ex)"
  by (simp add: keeps_def populatedId_def)

lemma stable_Record_findOne:
  "stable I \<Longrightarrow> keeps I (Record_findOne faults (Some ClientSession) uid eid ty)"
  unfolding Record_findOne_def
  by (rule keeps_storeCall) (auto simp: keeps_def stable_def)

lemma stable_Record_create:
  "stable I \<Longrightarrow> keeps I (Record_create faults (Some ClientSession) doc)"
  unfolding Record_create_def
  by (rule keeps_storeCall) (auto simp: keeps_def stable_def)

lemma stable_Progress_save:
  "stable I \<Longrightarrow> keeps I (Progress_save faults (Some ClientSession) d)"
  unfolding Progress_save_def
  by (auto simp: keeps_def stable_def throwE_def storeCall_def Let_def)

lemma stable_Progress_create:
  "stable I \<Longrightarrow> keeps I (Progress_create faults (Some ClientSession) docs)"
  by (induction docs) (auto intro!: keeps_bindE keeps_returnE stable_Progress_save)

lemma stable_processSet:
  "stable I \<Longrightarrow> keeps I (processSet faults now uid wid ex s acc)"
  unfolding processSet_def isPersonalRecord_def Let_def
  by (auto intro!: keeps_bindE keeps_returnE keeps_populatedId stable_Record_findOne
      stable_Record_create split: prod.splits)

lemma stable_processExercise:
  "stable I \<Longrightarrow> keeps I (processExercise faults now uid wid ex acc)"
  unfolding processExercise_def
  by (auto intro!: keeps_bindE keeps_returnE keeps_populatedId keeps_forEachE stable_processSet
      stable_Progress_save split: prod.splits)

lemma stable_inTx: "stable (inTx S)"
  by (auto simp: stable_def inTx_def writeDb_def)

lemma stable_logFrom: "stable (logFrom L)"
  by (auto simp: stable_def logFrom_def)


section \<open>Atomicity of completion\<close>

subsection \<open>A call that throws leaves the collections\<close>

lemma inTx_oplog: "inTx S m \<Longrightarrow> inTx S (m\<lparr>oplog := l\<rparr>)"
  by (simp add: inTx_def)

lemma inTx_writeDb: "inTx S m \<Longrightarrow> inTx S (writeDb (Some ClientSession) f m)"
  by (auto simp: inTx_def writeDb_def split: option.splits)

lemma keeps_Workout_findOne: "keeps (inTx S) (Workout_findOne faults (Some ClientSession) wid uid)"
  unfolding Workout_findOne_def
  by (rule keeps_storeCall) (auto simp: keeps_def inTx_oplog)

lemma keeps_Workout_save: "keeps (inTx S) (Workout_save faults (Some ClientSession) w)"
  unfolding Workout_save_def
  by (rule keeps_storeCall) (auto simp: keeps_def inTx_oplog inTx_writeDb)

lemma failSafe_keeps: "keeps (inTx S) act \<Longrightarrow> failSafe S act"
  by (auto simp: failSafe_def keeps_def inTx_def)

lemma failSafe_bindE:
  "keeps (inTx S) act \<Longrightarrow> (\<And>x. failSafe S (f x)) \<Longrightarrow> failSafe S (bindE act f)"
  unfolding failSafe_def keeps_def bindE_Inl_iff
  by (metis inTx_def snd_conv)

lemma failSafe_commit: "failSafe S (bindE (commitTransaction faults) (\<lambda>_. returnE w))"
  by (auto simp: failSafe_def bindE_Inl_iff returnE_def inTx_def commitTransaction_def
      storeCall_def Let_def split: if_splits)

lemma failSafe_Try: "failSafe S (completeWorkoutTry faults now wid uid)"
  unfolding completeWorkoutTry_def Let_def
  by (auto intro!: failSafe_bindE failSafe_commit keeps_Workout_findOne keeps_forEachE
      stable_processExercise [OF stable_inTx] keeps_Workout_save
      stable_Progress_create [OF stable_inTx]
      failSafe_keeps [OF keeps_throwE] simp del: Progress_create.simps
      split: option.splits prod.splits)

subsection \<open>A call to the store that fails is the last before the abort\<close>

lemma failFast_Workout_findOne: "failFast faults (Workout_findOne faults s wid uid)"
  unfolding Workout_findOne_def by (rule failFast_storeCall) simp

lemma failFast_Record_findOne: "failFast faults (Record_findOne faults s uid eid ty)"
  unfolding Record_findOne_def by (rule failFast_storeCall) simp

lemma failFast_Record_create: "failFast faults (Record_create faults s doc)"
  unfolding Record_create_def by (rule failFast_storeCall) simp

lemma failFast_Workout_save: "failFast faults (Workout_save faults s w)"
  unfolding Workout_save_def by (rule failFast_storeCall) simp

lemma failFast_commit: "failFast faults (commitTransaction faults)"
  unfolding commitTransaction_def by (rule failFast_storeCall) (simp split: option.splits)

lemma failFast_Progress_save: "failFast faults (Progress_save faults s d)"
  unfolding Progress_save_def
  by (auto intro!: failFast_throwE failFast_storeCall)

lemma failFast_Progress_create: "failFast faults (Progress_create faults s docs)"
  by (induction docs) (auto intro!: failFast_bindE failFast_returnE failFast_Progress_save)

lemma failFast_populatedId: "failFast faults (populatedId ex)"
  by (simp add: failFast_def populatedId_def)

lemma failFast_processSet: "failFast faults (processSet faults now uid wid ex s acc)"
  unfolding processSet_def isPersonalRecord_def Let_def
  by (auto intro!: failFast_bindE failFast_returnE failFast_populatedId failFast_Record_findOne
      failFast_Record_create split: prod.splits)

lemma failFast_processExercise: "failFast faults (processExercise faults now uid wid ex acc)"
  unfolding processExercise_def
  by (auto intro!: failFast_bindE failFast_returnE failFast_populatedId failFast_forEachE
      failFast_processSet failFast_Progress_create simp del: Progress_create.simps
      split: prod.splits)

lemma failFast_Try: "failFast faults (completeWorkoutTry faults now wid uid)"
  unfolding completeWorkoutTry_def Let_def
  by (auto intro!: failFast_bindE failFast_returnE failFast_throwE failFast_Workout_findOne
      failFast_forEachE failFast_processExercise failFast_Workout_save failFast_Progress_create
      failFast_commit simp del: Progress_create.simps split: option.splits prod.splits)

text \<open>
  Claim C1. Whenever \<open>completeWorkout\<close> fails, for whichever reason (a failure of the
  store, a duplicate key, a rejected document, a failed commit, an \<^verbatim>\<open>AppError\<close>), the
  last thing it has done is to abort the transaction, and the collections are what they
  were before the call: the session document is unchanged and no Record and no Progress
  document of the call persists. And whenever a call to the store fails, at whichever
  step, \<open>completeWorkout\<close> fails: that call is its last one before the abort.
\<close>

theorem completeWorkout_atomic:
  assumes "completeWorkout faults now wid userId m = (r, m')"
  shows "(isl r \<longrightarrow> store m' = store m \<and> txn m' = None \<and> last (oplog m') = Abort) \<and>
         (\<forall>k. length (oplog m) \<le> k \<and> k < length (oplog m') \<and> oplog m' ! k \<noteq> Abort \<and> faults k
              \<longrightarrow> isl r \<and> length (oplog m') = k + 2)"
proof -
  obtain r1 m1 where t: "completeWorkoutTry faults now wid userId (startTransaction m) = (r1, m1)"
    by (cases "completeWorkoutTry faults now wid userId (startTransaction m)")
  have start: "oplog (startTransaction m) = oplog m"
    by (simp add: startTransaction_def)
  from failFast_Try [of faults now wid userId] t start
  obtain l where l: "oplog m1 = oplog m @ l"
    and ff: "\<And>k. length (oplog m) \<le> k \<Longrightarrow> k < length (oplog m1) \<Longrightarrow> faults k \<Longrightarrow>
                 isl r1 \<and> length (oplog m1) = Suc k"
    unfolding failFast_def by (metis (no_types, lifting))
  show ?thesis
  proof (cases r1)
    case (Inl e0)
    with t assms have r: "isl r" and m': "m' = abortTransaction m1"
      by (auto simp: completeWorkout_def)
    have "inTx (store m) (startTransaction m)"
      by (simp add: inTx_def startTransaction_def)
    with failSafe_Try t Inl have "store m1 = store m"
      unfolding failSafe_def by blast
    with m' have rb: "store m' = store m \<and> txn m' = None \<and> last (oplog m') = Abort"
      by (simp add: abortTransaction_def)
    have lg: "oplog m' = oplog m1 @ [Abort]"
      using m' by (simp add: abortTransaction_def)
    have "length (oplog m') = k + 2"
      if k: "length (oplog m) \<le> k \<and> k < length (oplog m') \<and> oplog m' ! k \<noteq> Abort \<and> faults k"
      for k
    proof -
      from k lg have "k < length (oplog m1)"
        by (cases "k = length (oplog m1)") (auto simp: nth_append)
      with k ff have "length (oplog m1) = Suc k"
        by blast
      with lg show ?thesis by simp
    qed
    with r rb show ?thesis by blast
  next
    case (Inr w)
    with t assms have r: "r = Inr w" and m': "m' = m1"
      by (auto simp: completeWorkout_def)
    from ff Inr m' have "\<not> faults k" if "length (oplog m) \<le> k" "k < length (oplog m')" for k
      using that by auto
    with r show ?thesis by auto
  qed
qed

text \<open>
  The query for the Record of the second set fails, after the Record of the first set was
  written: the call throws, that query is its last call before the abort, and the
  collections are those of before the call.
\<close>

theorem completeWorkout_atomic_witness:
  "completeWorkout (\<lambda>n. n = 3) 61000 1 7
       (mongoOf (session1 In_progress [doneSet 80 10, doneSet 85 8]) [])
     = (Inl (AppError ''Error completing workout'' 400),
        \<lparr>store = store (mongoOf (session1 In_progress [doneSet 80 10, doneSet 85 8]) []),
         txn = None, oplog = [FindWorkout, FindRecord, CreateRecord, FindRecord, Abort]\<rparr>) \<and>
   [FindWorkout, FindRecord, CreateRecord, FindRecord, Abort] ! 3 \<noteq> Abort \<and>
   last [FindWorkout, FindRecord, CreateRecord, FindRecord, Abort] = Abort \<and>
   length [FindWorkout, FindRecord, CreateRecord, FindRecord, Abort] = 3 + 2"
proof -
  let ?m = "mongoOf (session1 In_progress [doneSet 80 10, doneSet 85 8]) []"
  let ?m' = "\<lparr>store = store ?m, txn = None,
         oplog = [FindWorkout, FindRecord, CreateRecord, FindRecord, Abort]\<rparr>"
  have run: "completeWorkout (\<lambda>n. n = 3) 61000 1 7 ?m
     = (Inl (AppError ''Error completing workout'' 400), ?m')"
    by code_simp
  have k: "length (oplog ?m) \<le> 3 \<and> 3 < length (oplog ?m') \<and> oplog ?m' ! 3 \<noteq> Abort \<and>
           (\<lambda>n. n = 3) (3::nat)"
    by (simp add: mongoOf_def)
  from completeWorkout_atomic [OF run] k
  have "store ?m' = store ?m \<and> txn ?m' = None \<and> last (oplog ?m') = Abort \<and>
        length (oplog ?m') = 3 + 2"
    by blast
  with run show ?thesis
    by simp
qed

section \<open>Completing a completed session\<close>

text \<open>
  Claim C2. When the session that the query finds is already completed and the query
  itself does not fail, \<open>completeWorkout\<close> throws
  \<^verbatim>\<open>AppError('Workout is already completed', 400)\<close>; the store has been asked for the
  session and nothing else, the transaction is aborted, and the collections (the session
  document, the Records, the ProgressEntries) are those of before the call.
\<close>

theorem completeWorkout_already_completed:
  assumes "find (\<lambda>w. w_id w = wid \<and> w_user w = userId) (workouts (store m)) = Some w"
    and "status w = Completed"
    and "\<not> faults (length (oplog m))"
  shows "completeWorkout faults now wid userId m =
           (Inl (AppError ''Workout is already completed'' 400),
            m\<lparr>txn := None, oplog := oplog m @ [FindWorkout, Abort]\<rparr>)"
  using assms
  by (simp add: completeWorkout_def completeWorkoutTry_def bindE_def Workout_findOne_def
      storeCall_def startTransaction_def readDb_def throwE_def abortTransaction_def)

theorem completeWorkout_already_completed_witness:
  "find (\<lambda>w. w_id w = 1 \<and> w_user w = 7)
     (workouts (store (mongoOf (session1 Completed [doneSet 80 10]) [])))
     = Some (session1 Completed [doneSet 80 10]) \<and>
   status (session1 Completed [doneSet 80 10]) = Completed \<and>
   \<not> noFaults (length (oplog (mongoOf (session1 Completed [doneSet 80 10]) []))) \<and>
   completeWorkout noFaults 61000 1 7 (mongoOf (session1 Completed [doneSet 80 10]) []) =
     (Inl (AppError ''Workout is already completed'' 400),
      \<lparr>store = \<lparr>workouts = [session1 Completed [doneSet 80 10]], records = [], progress = [],
                exercise_ids = [5, 6]\<rparr>,
       txn = None, oplog = [FindWorkout, Abort]\<rparr>)"
proof -
  let ?w = "session1 Completed [doneSet 80 10]"
  let ?m = "mongoOf ?w []"
  have h1: "find (\<lambda>w. w_id w = 1 \<and> w_user w = 7) (workouts (store ?m)) = Some ?w"
    by (simp add: mongoOf_def session1_def)
  have h2: "status ?w = Completed"
    by (simp add: session1_def)
  have h3: "\<not> noFaults (length (oplog ?m))"
    by (simp add: noFaults_def)
  from completeWorkout_already_completed
    [where wid = 1 and userId = 7 and m = "?m" and w = "?w" and faults = noFaults
       and now = 61000, OF h1 h2 h3] h1 h2 h3
  show ?thesis
    by (simp add: mongoOf_def)
qed

section \<open>The decision rule\<close>









section \<open>The aggregates of a completed session\<close>

text \<open>
  No call of \<open>completeWorkout\<close> returns: the schema of the Progress model accepts neither
  the type \<^verbatim>\<open>'exercise'\<close> nor the type \<^verbatim>\<open>'performance'\<close> of the documents that
  the service creates.
\<close>

lemma Progress_create_rejected:
  assumes "Progress_create faults session (doc # docs) m = (Inr x, m')"
  shows "p_type doc \<in> set ProgressMetricSchema_enum"
  using assms
  by (auto simp: bindE_Inr_iff Progress_save_def castProgress_def throwE_def split: if_splits)

lemma processExercise_throws:
  "processExercise faults now uid wid ex acc m \<noteq> (Inr r, m')"
  by (auto simp: processExercise_def bindE_Inr_iff ProgressMetricSchema_enum_def
      simp del: Progress_create.simps dest!: Progress_create_rejected split: prod.splits)

lemma completeWorkoutTry_throws:
  "completeWorkoutTry faults now wid uid m \<noteq> (Inr w, m')"
  by (auto simp: completeWorkoutTry_def bindE_Inr_iff throwE_def Let_def
      ProgressMetricSchema_enum_def simp del: Progress_create.simps
      dest!: Progress_create_rejected split: option.splits if_splits prod.splits)

lemma completeWorkout_throws: "isl (fst (completeWorkout faults now wid userId m))"
proof (cases "completeWorkoutTry faults now wid userId (startTransaction m)")
  case (Pair r1 m1)
  with completeWorkoutTry_throws [of faults now wid userId "startTransaction m"]
  show ?thesis
    by (cases r1) (auto simp: completeWorkout_def)
qed

text \<open>
  Claim C6 at its worked example. User 7 completes the session with the sets
  \<open>80 x 10\<close>, \<open>85 x 8\<close> and \<open>90 x 6\<close> of exercise 5. The loop over the sets adds up
  the volume 2020 and the 24 repetitions, inside the transaction. Then
  \<^verbatim>\<open>Progress.create\<close> is given a document of type \<^verbatim>\<open>'exercise'\<close>, which the schema
  rejects: the call throws \<^verbatim>\<open>AppError('Error completing workout', 400)\<close>, the
  transaction is aborted, and the stored session is the one of before the call, in
  progress and without metrics.
\<close>

theorem completeWorkout_worked_example_throws:
  "fst (forEachE (processSet noFaults 61000 7 1
          \<lparr>e_id = 11, exercise = 5, sets = [doneSet 80 10, doneSet 85 8, doneSet 90 6]\<rparr>)
        [doneSet 80 10, doneSet 85 8, doneSet 90 6] (0, 0, 0)
        (startTransaction
          (mongoOf (session1 In_progress [doneSet 80 10, doneSet 85 8, doneSet 90 6]) [])))
     = Inr ([(doneSet 80 10)\<lparr>isPersonalRecord := True\<rparr>, doneSet 85 8, doneSet 90 6],
            2020, 24, 1) \<and>
   completeWorkout noFaults 61000 1 7
       (mongoOf (session1 In_progress [doneSet 80 10, doneSet 85 8, doneSet 90 6]) [])
     = (Inl (AppError ''Error completing workout'' 400),
        \<lparr>store = \<lparr>workouts = [session1 In_progress [doneSet 80 10, doneSet 85 8, doneSet 90 6]],
                  records = [], progress = [], exercise_ids = [5, 6]\<rparr>,
         txn = None,
         oplog = [FindWorkout, FindRecord, CreateRecord, FindRecord, FindRecord, Abort]\<rparr>)"
  by code_simp

section \<open>Set data is not validated\<close>

lemma keeps_logFrom_Workout_save: "keeps (logFrom L) (Workout_save faults s w)"
  unfolding Workout_save_def
  by (rule keeps_storeCall) (auto simp: keeps_def logFrom_def)

lemma keeps_logFrom_commit: "keeps (logFrom L) (commitTransaction faults)"
  unfolding commitTransaction_def
  by (rule keeps_storeCall) (auto simp: keeps_def logFrom_def split: option.splits)

lemma Try_log: "logFrom (oplog m @ [FindWorkout]) (snd (completeWorkoutTry faults now wid uid m))"
  unfolding completeWorkoutTry_def Let_def
proof (rule bindE_snd [where I = "logFrom (oplog m @ [FindWorkout])"])
  show "logFrom (oplog m @ [FindWorkout])
     (snd (Workout_findOne faults (Some ClientSession) wid uid m))"
    by (simp add: snd_Workout_findOne logFrom_def)
qed (intro keeps_bindE keeps_returnE keeps_throwE keeps_forEachE stable_processExercise
        stable_logFrom keeps_logFrom_Workout_save keeps_logFrom_commit
        stable_Progress_create [OF stable_logFrom] | split option.split prod.split if_split
        | intro conjI impI allI)+

text \<open>
  Claim C8, as the code has it. \<open>completeWorkout\<close> checks no set data. Whatever the
  session holds, the call goes to the store, first with the query for the session; and
  when it fails, it is with one of
  \<^verbatim>\<open>AppError('Workout not found', 404)\<close>,
  \<^verbatim>\<open>AppError('Workout is already completed', 400)\<close> and
  \<^verbatim>\<open>AppError('Error completing workout', 400)\<close>: no error tells malformed set data.
\<close>

theorem completeWorkout_outcomes:
  "(\<exists>rest. oplog (snd (completeWorkout faults now wid userId m)) = oplog m @ FindWorkout # rest) \<and>
   (\<forall>e. fst (completeWorkout faults now wid userId m) = Inl e \<longrightarrow>
        e = AppError ''Workout not found'' 404 \<or>
        e = AppError ''Workout is already completed'' 400 \<or>
        e = AppError ''Error completing workout'' 400)"
proof -
  obtain r m1 where t: "completeWorkoutTry faults now wid userId (startTransaction m) = (r, m1)"
    by (cases "completeWorkoutTry faults now wid userId (startTransaction m)")
  from Try_log [of "startTransaction m" faults now wid userId] t
  obtain rest where lg: "oplog m1 = oplog m @ FindWorkout # rest"
    by (auto simp: logFrom_def startTransaction_def)
  show ?thesis
  proof (cases r)
    case (Inl e)
    with t throwsOnly_Try have "tryExn e"
      unfolding throwsOnly_def by blast
    with t Inl lg show ?thesis
      by (auto simp: completeWorkout_def abortTransaction_def tryExn_def storeExn_def)
  next
    case (Inr w)
    with t lg show ?thesis
      by (simp add: completeWorkout_def)
  qed
qed

text \<open>A session with malformed sets fails with the third error, after the query for the session.\<close>

theorem completeWorkout_outcomes_witness:
  "fst (completeWorkout noFaults 61000 1 7
       (mongoOf (session1 In_progress [doneSet 10 0, doneSet (- 5) 3, doneSet 10 (- 3)]) []))
     = Inl (AppError ''Error completing workout'' 400) \<and>
   (\<exists>rest. oplog (snd (completeWorkout noFaults 61000 1 7
       (mongoOf (session1 In_progress [doneSet 10 0, doneSet (- 5) 3, doneSet 10 (- 3)]) [])))
     = oplog (mongoOf (session1 In_progress [doneSet 10 0, doneSet (- 5) 3, doneSet 10 (- 3)]) [])
         @ FindWorkout # rest)"
proof -
  let ?r = "completeWorkout noFaults 61000 1 7
       (mongoOf (session1 In_progress [doneSet 10 0, doneSet (- 5) 3, doneSet 10 (- 3)]) [])"
  have "isl (fst ?r)"
    by code_simp
  then obtain e where e: "fst ?r = Inl e"
    by (cases "fst ?r") auto
  with completeWorkout_outcomes [of noFaults 61000 1 7
      "mongoOf (session1 In_progress [doneSet 10 0, doneSet (- 5) 3, doneSet 10 (- 3)]) []"]
  have three: "e = AppError ''Workout not found'' 404 \<or>
        e = AppError ''Workout is already completed'' 400 \<or>
        e = AppError ''Error completing workout'' 400"
    and lg: "\<exists>rest. oplog (snd ?r)
       = oplog (mongoOf (session1 In_progress [doneSet 10 0, doneSet (- 5) 3, doneSet 10 (- 3)]) [])
           @ FindWorkout # rest"
    by blast+
  have "fst ?r \<noteq> Inl (AppError ''Workout not found'' 404)"
    and "fst ?r \<noteq> Inl (AppError ''Workout is already completed'' 400)"
    by code_simp+
  with e three lg show ?thesis
    by auto
qed

text \<open>
  Claim C8, as stated, fails: the session whose completed sets are \<open>10 x 0\<close>,
  \<open>-5 x 3\<close> and \<open>10 x -3\<close> (no repetition, a negative weight, a negative number of
  repetitions) is not rejected before the transaction. The call queries the session,
  queries the volume Record for each of the three sets and inserts a Record of value 0 for
  the first; it fails at \<^verbatim>\<open>Progress.create\<close>, as it does for well-formed sets, with
  \<^verbatim>\<open>AppError('Error completing workout', 400)\<close>.
\<close>

theorem completeWorkout_malformed_sets_reach_the_store:
  "completeWorkout noFaults 61000 1 7
       (mongoOf (session1 In_progress [doneSet 10 0, doneSet (- 5) 3, doneSet 10 (- 3)]) [])
     = (Inl (AppError ''Error completing workout'' 400),
        \<lparr>store = \<lparr>workouts = [session1 In_progress [doneSet 10 0, doneSet (- 5) 3, doneSet 10 (- 3)]],
                  records = [], progress = [], exercise_ids = [5, 6]\<rparr>,
         txn = None, oplog = [FindWorkout, FindRecord, CreateRecord, FindRecord, FindRecord, Abort]\<rparr>)"
  by code_simp

section \<open>A record that beats a stored record\<close>

text \<open>An insert for a key that has a Record meets the unique index.\<close>

lemma Record_create_duplicate:
  assumes "hasKey (r_user doc) (r_exercise doc) (r_type doc) (readDb session m)"
    and "\<not> faults (length (oplog m))"
  shows "fst (Record_create faults session doc m) = Inl DuplicateKey"
  using assms by (simp add: Record_create_def storeCall_def hasKey_def)

text \<open>
  Claim C3 at a failing input. User 7 holds the weight Record 100 for exercise 5 and
  completes a session with the set \<open>101 x 1\<close>. The detector reports a new record; the
  insert of the new Record meets the unique index of the key; the call throws
  \<^verbatim>\<open>AppError('Error completing workout', 400)\<close> and the store is as before: no Record
  with a \<^verbatim>\<open>previous\<close> snapshot is written, and the session is not completed.
\<close>

theorem completeWorkout_supersede_fails:
  "fst (isPersonalRecord noFaults 7 5 101 1 (Some ClientSession)
          (startTransaction (mongoOf (session1 In_progress [doneSet 101 1]) [weightRecord 100])))
     = Inr True \<and>
   completeWorkout noFaults 61000 1 7
       (mongoOf (session1 In_progress [doneSet 101 1]) [weightRecord 100])
     = (Inl (AppError ''Error completing workout'' 400),
        \<lparr>store = \<lparr>workouts = [session1 In_progress [doneSet 101 1]],
                  records = [weightRecord 100], progress = [], exercise_ids = [5, 6]\<rparr>,
         txn = None, oplog = [FindWorkout, FindRecord, CreateRecord, Abort]\<rparr>)"
  by code_simp

text \<open>
  Claim C4 at its own input. With the stored weight Record 100 and the completed sets
  \<open>110 x 1\<close> and \<open>120 x 1\<close>, the insert for the first set meets the unique index: the
  call throws, the Record of value 100 stays, and none of value 120 is written.
\<close>

theorem completeWorkout_two_improving_sets_fails:
  "completeWorkout noFaults 61000 1 7
       (mongoOf (session1 In_progress [doneSet 110 1, doneSet 120 1]) [weightRecord 100])
     = (Inl (AppError ''Error completing workout'' 400),
        \<lparr>store = \<lparr>workouts = [session1 In_progress [doneSet 110 1, doneSet 120 1]],
                  records = [weightRecord 100], progress = [], exercise_ids = [5, 6]\<rparr>,
         txn = None, oplog = [FindWorkout, FindRecord, CreateRecord, Abort]\<rparr>)"
  by code_simp

section \<open>Sessions in a terminal status\<close>

text \<open>\<open>addExerciseToWorkout\<close> refuses a session that is not in progress.\<close>

lemma addExerciseToWorkout_guard:
  assumes "find (\<lambda>w. w_id w = wid \<and> w_user w = userId) (workouts (store m)) = Some w"
    and "status w \<noteq> In_progress"
    and "\<not> faults (length (oplog m))"
  shows "addExerciseToWorkout faults wid userId exerciseData m =
           (Inl (AppError ''Cannot add exercises to a completed workout'' 400),
            m\<lparr>oplog := oplog m @ [FindWorkout]\<rparr>)"
  using assms
  by (simp add: addExerciseToWorkout_def bindE_def Workout_findOne_def
      storeCall_def readDb_def throwE_def)

text \<open>
  Claim C7 at a failing input. \<open>updateExerciseInWorkout\<close> has no such check: on the
  completed session 1, whose entry 11 holds the set \<open>80 x 10\<close>, it replaces the sets by
  the set \<open>1 x 1\<close>, saves the session and returns it.
\<close>

theorem terminal_sessions_are_changed:
  "updateExerciseInWorkout noFaults 1 7 11
       \<lparr>u_exercise = None, u_sets = Some [doneSet 1 1]\<rparr>
       (mongoOf (session1 Completed [doneSet 80 10]) [])
     = (Inr (session1 Completed [doneSet 1 1]),
        \<lparr>store = \<lparr>workouts = [session1 Completed [doneSet 1 1]], records = [],
                  progress = [], exercise_ids = [5, 6]\<rparr>,
         txn = None, oplog = [FindWorkout, SaveWorkout]\<rparr>)"
  by code_simp

section \<open>The first volume set of an exercise without a volume Record\<close>









end
